theory Spec2Isabelle
  imports Complex_Main
begin

section \<open>Data model of \<^verbatim>\<open>backend/main.py\<close>\<close>

text \<open>
  Python exceptions are values. Only the exceptions that the modelled statements can
  raise are listed; \<open>UnpicklingError\<close> stands for whatever \<^verbatim>\<open>joblib.load\<close> raises on a
  file it cannot read.
\<close>

datatype py_error =
    ZeroDivisionError
  | OverflowError
  | TypeError
  | IndexError
  | ValueError
  | AttributeError
  | UnpicklingError

text \<open>Sequencing of fallible statements: the first exception ends the call.\<close>

fun bind_err :: "py_error + 'a \<Rightarrow> ('a \<Rightarrow> py_error + 'b) \<Rightarrow> py_error + 'b" where
  "bind_err (Inl e) f = Inl e"
| "bind_err (Inr v) f = f v"

text \<open>
  \<^verbatim>\<open>class PredictRequest(BaseModel)\<close>: a name and fifteen integer fields. The pydantic
  constraint \<^verbatim>\<open>conint(ge=0, le=1)\<close> is the predicate \<open>valid_request\<close> below; the record
  itself carries plain integers, as the Python object does.
\<close>

record PredictRequest =
  use_case_name :: string
  is_process_simple :: int
  can_specify_business_rules :: int
  will_occasional_errors_be_tolerated :: int
  will_error_be_propagated :: int
  is_use_case_transactional_in_nature :: int
  are_you_building_learning_system :: int
  high_stakes_environment :: int
  hyper_personalization :: int
  unstructured_text_input :: int
  is_input_data_multi_modal :: int
  language_generation :: int
  are_autonomous_decisions_required :: int
  is_reasoning_required :: int
  tool_integration :: int
  dynamic_goals :: int

definition conint01 :: "int \<Rightarrow> bool" where
  "conint01 v = (0 \<le> v \<and> v \<le> 1)"

definition valid_request :: "PredictRequest \<Rightarrow> bool" where
  "valid_request req =
     (conint01 (is_process_simple req) \<and>
      conint01 (can_specify_business_rules req) \<and>
      conint01 (will_occasional_errors_be_tolerated req) \<and>
      conint01 (will_error_be_propagated req) \<and>
      conint01 (is_use_case_transactional_in_nature req) \<and>
      conint01 (are_you_building_learning_system req) \<and>
      conint01 (high_stakes_environment req) \<and>
      conint01 (hyper_personalization req) \<and>
      conint01 (unstructured_text_input req) \<and>
      conint01 (is_input_data_multi_modal req) \<and>
      conint01 (language_generation req) \<and>
      conint01 (are_autonomous_decisions_required req) \<and>
      conint01 (is_reasoning_required req) \<and>
      conint01 (tool_integration req) \<and>
      conint01 (dynamic_goals req))"

text \<open>\<^verbatim>\<open>class PredictResponse(BaseModel)\<close>, fields in the order of the source.\<close>

record PredictResponse =
  label :: string
  avg_confidence :: real
  ucl :: real
  lcl :: real

text \<open>\<^verbatim>\<open>LABELS = ["Agentic AI", "Classical ML", "Gen AI", "Business Automation"]\<close>\<close>

definition LABELS :: "string list" where
  "LABELS = [''Agentic AI'', ''Classical ML'', ''Gen AI'', ''Business Automation'']"

text \<open>
  Python list subscription \<^verbatim>\<open>xs[i]\<close>: a negative index counts from the end, an index
  outside \<open>[-len, len)\<close> raises \<^verbatim>\<open>IndexError\<close>.
\<close>

definition py_getitem :: "'a list \<Rightarrow> int \<Rightarrow> py_error + 'a" where
  "py_getitem xs i =
     (if 0 \<le> i \<and> i < int (length xs) then Inr (xs ! nat i)
      else if i < 0 \<and> - int (length xs) \<le> i then Inr (xs ! nat (int (length xs) + i))
      else Inl IndexError)"

section \<open>The heuristic fallback of \<^verbatim>\<open>predict\<close>\<close>

text \<open>
  The \<^verbatim>\<open>else\<close> branch of \<^verbatim>\<open>predict\<close> (taken when \<^verbatim>\<open>model is None\<close>). A Python
  integer is true in a condition iff it is not zero. The result is the pair
  \<open>(pred_idx, p)\<close> that the branch leaves behind.
\<close>

definition agentic_score :: "PredictRequest \<Rightarrow> int" where
  "agentic_score req =
     sum_list [are_autonomous_decisions_required req, is_reasoning_required req,
               tool_integration req, dynamic_goals req]"

definition heuristic_fallback :: "PredictRequest \<Rightarrow> int \<times> real" where
  "heuristic_fallback req =
     (let pred_idx =
            (if language_generation req \<noteq> 0 then 2
             else if agentic_score req \<ge> 3 then 0
             else if can_specify_business_rules req \<noteq> 0
                     \<and> \<not> (are_you_building_learning_system req \<noteq> 0) then 3
             else 1);
          p = 0.70
      in (pred_idx, p))"

text \<open>
  The decision procedure in the words of the specification (section 4.1): the fields are
  compared with 1 and 0, and the agentic score counts the 1-values among four fields.
\<close>

definition spec_agentic_count :: "PredictRequest \<Rightarrow> nat" where
  "spec_agentic_count req =
     length (filter (\<lambda>v. v = 1)
       [are_autonomous_decisions_required req, is_reasoning_required req,
        tool_integration req, dynamic_goals req])"

definition spec_label_index :: "PredictRequest \<Rightarrow> int" where
  "spec_label_index req =
     (if language_generation req = 1 then 2
      else if spec_agentic_count req \<ge> 3 then 0
      else if can_specify_business_rules req = 1
              \<and> are_you_building_learning_system req = 0 then 3
      else 1)"

section \<open>Float arithmetic\<close>

text \<open>
  A Python \<^verbatim>\<open>float\<close> is a binary64 number. The interval estimator is modelled once, over an
  \<^emph>\<open>arithmetic\<close>: the function \<open>rnd\<close> that is applied to the exact result of every float
  operation, and the function \<open>root\<close> that computes \<^verbatim>\<open>x**0.5\<close> for \<open>x \<ge> 0\<close>. Two arithmetics
  are used.
  \<^item> \<open>exact\<close>: floats are real numbers, nothing is rounded and \<open>root\<close> is the real square
    root. This is the mathematics of the formula.
  \<^item> \<open>binary64\<close>: floats are the rationals that a double can hold, \<open>rnd\<close> rounds to the
    nearest double (ties to even, as IEEE 754 prescribes for \<open>+ - * /\<close>), and the two powers
    \<^verbatim>\<open>z**2\<close> and \<^verbatim>\<open>x**0.5\<close> are correctly rounded too.
  In both, the operands are finite and no sum or product overflows silently to \<^verbatim>\<open>inf\<close>.
  What Python \<^emph>\<open>raises\<close> is part of the model in both:
  \<^item> \<^verbatim>\<open>float / int\<close> first converts the integer to a float, which raises
    \<^verbatim>\<open>OverflowError\<close> (int too large to convert to float) for an integer that rounds
    beyond the largest double, that is from \<open>2^1024 - 2^970\<close> on, and then raises
    \<^verbatim>\<open>ZeroDivisionError\<close> for a zero divisor;
  \<^item> \<^verbatim>\<open>z**2\<close> raises \<^verbatim>\<open>OverflowError\<close> when the square leaves the range of a double;
  \<^item> \<^verbatim>\<open>x**0.5\<close> of a negative \<open>x\<close> is a complex number; it stays complex through the
    multiplication by \<open>z\<close>, the division by \<open>denom\<close> (not zero at that point) and the
    subtraction from \<open>center\<close>, and \<^verbatim>\<open>max(0.0, center - half)\<close> then raises
    \<^verbatim>\<open>TypeError\<close>, since complex numbers are not ordered. Nothing between the power and
    \<^verbatim>\<open>max\<close> can raise, so the model raises at the power.
\<close>

record 'a arith =
  rnd :: "'a \<Rightarrow> 'a"
  root :: "'a \<Rightarrow> 'a"

definition exact :: "real arith" where
  "exact = \<lparr>rnd = (\<lambda>x. x), root = sqrt\<rparr>"

subsection \<open>Rounding to binary64\<close>

definition pow2 :: "int \<Rightarrow> rat" where
  "pow2 e = (if 0 \<le> e then 2 ^ nat e else 1 / 2 ^ nat (- e))"

text \<open>
  \<open>bitlen n\<close> is the number of binary digits of \<open>n > 0\<close>, and \<open>ilog2 x\<close> is the integer
  \<open>k\<close> with \<open>2^k \<le> x < 2^(k+1)\<close>, for \<open>x > 0\<close>.
\<close>

function bitlen :: "int \<Rightarrow> int" where
  "bitlen n = (if n < 1 then 0 else 1 + bitlen (n div 2))"
  by pat_completeness auto
termination
  by (relation "measure nat") auto

definition ilog2 :: "rat \<Rightarrow> int" where
  "ilog2 x = (if 1 \<le> x then bitlen \<lfloor>x\<rfloor> - 1 else - bitlen (\<lceil>1 / x\<rceil> - 1))"

definition round_half_even :: "rat \<Rightarrow> int" where
  "round_half_even x =
     (let f = \<lfloor>x\<rfloor>; r = x - of_int f
      in if r < 1 / 2 then f else if 1 / 2 < r then f + 1 else if even f then f else f + 1)"

text \<open>
  The nearest double: 53 significant bits, and a spacing of \<open>2^-1074\<close> at least (the
  subnormal numbers).
\<close>

definition b64 :: "rat \<Rightarrow> rat" where
  "b64 x = (if x = 0 then 0
            else let e = max (ilog2 \<bar>x\<bar> - 52) (- 1074)
                 in of_int (round_half_even (x / pow2 e)) * pow2 e)"

text \<open>
  The integer square root \<open>\<lfloor>\<surd>n\<rfloor>\<close>, two bits of \<open>n\<close> at a time, and the nearest double to
  \<open>\<surd>x\<close>.
\<close>

function isqrt :: "int \<Rightarrow> int" where
  "isqrt n = (if n < 1 then 0
              else let r = 2 * isqrt (n div 4)
                   in if (r + 1) * (r + 1) \<le> n then r + 1 else r)"
  by pat_completeness auto
termination
  by (relation "measure nat") auto

definition b64_sqrt :: "rat \<Rightarrow> rat" where
  "b64_sqrt x =
     (if x \<le> 0 then 0
      else let e = ilog2 x div 2 - 52;
               t = x / pow2 (2 * e);
               m = isqrt \<lfloor>t\<rfloor>;
               h = (of_int m + 1 / 2) ^ 2
           in of_int (if t < h then m else if h < t then m + 1
                      else if even m then m else m + 1) * pow2 e)"

definition binary64 :: "rat arith" where
  "binary64 = \<lparr>rnd = b64, root = b64_sqrt\<rparr>"

subsection \<open>The float operations of \<^verbatim>\<open>wilson_interval\<close>\<close>

definition DBL_LIMIT :: "'a::linordered_field" where
  "DBL_LIMIT = 2 ^ 1024 - 2 ^ 970"

definition float_of_int :: "'a::linordered_field arith \<Rightarrow> int \<Rightarrow> py_error + 'a" where
  "float_of_int A k =
     (if DBL_LIMIT \<le> \<bar>of_int k :: 'a\<bar> then Inl OverflowError else Inr (rnd A (of_int k)))"

definition float_div :: "'a::linordered_field arith \<Rightarrow> 'a \<Rightarrow> 'a \<Rightarrow> py_error + 'a" where
  "float_div A x y = (if y = 0 then Inl ZeroDivisionError else Inr (rnd A (x / y)))"

definition float_div_int :: "'a::linordered_field arith \<Rightarrow> 'a \<Rightarrow> int \<Rightarrow> py_error + 'a" where
  "float_div_int A x k = bind_err (float_of_int A k) (float_div A x)"

definition float_pow2 :: "'a::linordered_field arith \<Rightarrow> 'a \<Rightarrow> py_error + 'a" where
  "float_pow2 A z = (if DBL_LIMIT \<le> z ^ 2 then Inl OverflowError else Inr (rnd A (z ^ 2)))"

definition float_pow_half :: "'a::linordered_field arith \<Rightarrow> 'a \<Rightarrow> py_error + 'a" where
  "float_pow_half A x = (if x < 0 then Inl TypeError else Inr (root A x))"

section \<open>The interval estimator \<^verbatim>\<open>wilson_interval\<close>\<close>

text \<open>
  \<^verbatim>\<open>def wilson_interval(p: float, n: int = 100, z: float = 1.96)\<close>, statement by
  statement and operand by operand in Python's evaluation order (left to right). The
  source evaluates \<^verbatim>\<open>z**2\<close> three times with the same outcome; the model evaluates it
  once. The integer expressions \<^verbatim>\<open>2*n\<close> and \<^verbatim>\<open>4*n**2\<close> are exact.
\<close>

definition wilson_interval ::
  "'a::linordered_field arith \<Rightarrow> 'a \<Rightarrow> int \<Rightarrow> 'a \<Rightarrow> py_error + ('a \<times> 'a)" where
  "wilson_interval A p n z =
     bind_err (float_pow2 A z) (\<lambda>z2.
     bind_err (float_div_int A z2 n) (\<lambda>q.
     let denom = rnd A (1 + q) in
     bind_err (float_div_int A z2 (2 * n)) (\<lambda>c.
     bind_err (float_div A (rnd A (p + c)) denom) (\<lambda>center.
     bind_err (float_div_int A (rnd A (p * rnd A (1 - p))) n) (\<lambda>a.
     bind_err (float_div_int A z2 (4 * n ^ 2)) (\<lambda>b.
     bind_err (float_pow_half A (rnd A (a + b))) (\<lambda>s.
     bind_err (float_div A (rnd A (z * s)) denom) (\<lambda>half.
     let lcl = max 0 (rnd A (center - half));
         ucl = min 1 (rnd A (center + half))
     in Inr (lcl, ucl)))))))))"

text \<open>
  The call \<^verbatim>\<open>wilson_interval(p)\<close> with the default arguments \<^verbatim>\<open>n = 100\<close> and
  \<^verbatim>\<open>z = 1.96\<close>; the literal \<^verbatim>\<open>1.96\<close> is itself rounded when it is read.
\<close>

definition wilson_interval_default :: "'a::linordered_field arith \<Rightarrow> 'a \<Rightarrow> py_error + ('a \<times> 'a)" where
  "wilson_interval_default A p = wilson_interval A p 100 (rnd A (196 / 100))"

text \<open>
  The local variables \<^verbatim>\<open>denom\<close>, \<^verbatim>\<open>center\<close> and \<^verbatim>\<open>half\<close> of the source, and the operand of
  \<^verbatim>\<open>**0.5\<close>, as functions of the arguments: the values that \<open>wilson_interval\<close> binds when
  no statement raises.
\<close>

definition wilson_denom :: "'a::linordered_field arith \<Rightarrow> int \<Rightarrow> 'a \<Rightarrow> 'a" where
  "wilson_denom A n z = rnd A (1 + rnd A (rnd A (z ^ 2) / rnd A (of_int n)))"

definition wilson_center :: "'a::linordered_field arith \<Rightarrow> 'a \<Rightarrow> int \<Rightarrow> 'a \<Rightarrow> 'a" where
  "wilson_center A p n z =
     rnd A (rnd A (p + rnd A (rnd A (z ^ 2) / rnd A (of_int (2 * n)))) / wilson_denom A n z)"

definition wilson_radicand :: "'a::linordered_field arith \<Rightarrow> 'a \<Rightarrow> int \<Rightarrow> 'a \<Rightarrow> 'a" where
  "wilson_radicand A p n z =
     rnd A (rnd A (rnd A (p * rnd A (1 - p)) / rnd A (of_int n))
            + rnd A (rnd A (z ^ 2) / rnd A (of_int (4 * n ^ 2))))"

definition wilson_half :: "'a::linordered_field arith \<Rightarrow> 'a \<Rightarrow> int \<Rightarrow> 'a \<Rightarrow> 'a" where
  "wilson_half A p n z =
     rnd A (rnd A (z * root A (wilson_radicand A p n z)) / wilson_denom A n z)"

text \<open>
  The interval in the words of the specification (section 4.2), a total function of
  real numbers: \<open>sqrt\<close> is the real square root, and nothing is said about failure.
\<close>

definition spec_interval :: "real \<Rightarrow> int \<Rightarrow> real \<Rightarrow> real \<times> real" where
  "spec_interval p n z =
     (let denom = 1 + z\<^sup>2 / real_of_int n;
          center = (p + z\<^sup>2 / (2 * real_of_int n)) / denom;
          half = z * sqrt (p * (1 - p) / real_of_int n + z\<^sup>2 / (4 * (real_of_int n)\<^sup>2)) / denom
      in (max 0 (center - half), min 1 (center + half)))"

section \<open>The artifact, its loading and \<^verbatim>\<open>predict\<close>\<close>

text \<open>
  The object that \<^verbatim>\<open>joblib.load\<close> returns is opaque to the program: \<^verbatim>\<open>predict\<close> only asks
  whether it has a \<^verbatim>\<open>predict_proba\<close> attribute and calls \<^verbatim>\<open>predict_proba\<close> or \<^verbatim>\<open>predict\<close>
  on the \<open>1 \<times> 15\<close> feature matrix. An attribute that the object does not have is
  \<open>None\<close> here; a method is a function of the matrix that returns one row per input row,
  or raises.
\<close>

record artifact =
  predict_proba :: "(real list list \<Rightarrow> py_error + real list list) option"
  predict_method :: "(real list list \<Rightarrow> py_error + int list) option"

text \<open>
  \<^verbatim>\<open>load_model\<close> reads the outside world twice: \<^verbatim>\<open>os.path.exists(path)\<close> and
  \<^verbatim>\<open>joblib.load(path)\<close>. Both answers are fields of the environment; the loaded object
  may be Python's \<^verbatim>\<open>None\<close> (the inner \<open>option\<close>), and the load may raise.
\<close>

record environment =
  path_exists :: bool
  joblib_load :: "py_error + artifact option"

definition load_model :: "environment \<Rightarrow> py_error + artifact option" where
  "load_model env = (if path_exists env then joblib_load env else Inr None)"

text \<open>\<^verbatim>\<open>vectorize\<close>: one row of fifteen floats, in the order of the source.\<close>

definition vectorize :: "PredictRequest \<Rightarrow> real list list" where
  "vectorize req = [map real_of_int
     [is_process_simple req,
      can_specify_business_rules req,
      will_occasional_errors_be_tolerated req,
      will_error_be_propagated req,
      is_use_case_transactional_in_nature req,
      are_you_building_learning_system req,
      high_stakes_environment req,
      hyper_personalization req,
      unstructured_text_input req,
      is_input_data_multi_modal req,
      language_generation req,
      are_autonomous_decisions_required req,
      is_reasoning_required req,
      tool_integration req,
      dynamic_goals req]]"

text \<open>
  \<^verbatim>\<open>np.argmax\<close> of a row: the index of the first occurrence of the maximum;
  \<^verbatim>\<open>ValueError\<close> on an empty row.
\<close>

fun argmax_from :: "real list \<Rightarrow> nat \<Rightarrow> nat \<Rightarrow> real \<Rightarrow> nat" where
  "argmax_from [] i best v = best"
| "argmax_from (x # xs) i best v =
     (if v < x then argmax_from xs (Suc i) i x else argmax_from xs (Suc i) best v)"

definition np_argmax :: "real list \<Rightarrow> py_error + int" where
  "np_argmax row =
     (case row of [] \<Rightarrow> Inl ValueError
      | x # xs \<Rightarrow> Inr (int (argmax_from xs 1 0 x)))"

text \<open>The branch \<^verbatim>\<open>if model is not None\<close> of \<^verbatim>\<open>predict\<close>.\<close>

definition model_branch :: "artifact \<Rightarrow> real list list \<Rightarrow> py_error + (int \<times> real)" where
  "model_branch model x =
     (case predict_proba model of
        Some proba_fn \<Rightarrow>
          bind_err (proba_fn x) (\<lambda>out.
          bind_err (py_getitem out 0) (\<lambda>proba.
          bind_err (np_argmax proba) (\<lambda>pred_idx.
          bind_err (py_getitem proba pred_idx) (\<lambda>p.
          Inr (pred_idx, p)))))
      | None \<Rightarrow>
          (case predict_method model of
             None \<Rightarrow> Inl AttributeError
           | Some predict_fn \<Rightarrow>
               bind_err (predict_fn x) (\<lambda>out.
               bind_err (py_getitem out 0) (\<lambda>pred_idx.
               Inr (pred_idx, 0.75)))))"

text \<open>
  \<^verbatim>\<open>predict\<close>, with the global \<^verbatim>\<open>model\<close> as its first argument: \<open>None\<close> is the fallback
  mode. \<open>classify\<close> is the \<^verbatim>\<open>if model is not None: ... else: ...\<close> statement, which leaves
  \<open>(pred_idx, p)\<close> behind; the interval and the response follow.
\<close>

definition classify :: "artifact option \<Rightarrow> PredictRequest \<Rightarrow> py_error + (int \<times> real)" where
  "classify model req =
     (let x = vectorize req in
      case model of
        Some m \<Rightarrow> model_branch m x
      | None \<Rightarrow> Inr (heuristic_fallback req))"

definition predict :: "artifact option \<Rightarrow> PredictRequest \<Rightarrow> py_error + PredictResponse" where
  "predict model req =
     bind_err (classify model req) (\<lambda>(pred_idx, p).
     bind_err (wilson_interval_default exact p) (\<lambda>(lcl, ucl).
     bind_err (py_getitem LABELS pred_idx) (\<lambda>lab.
     Inr \<lparr>label = lab, avg_confidence = p, ucl = ucl, lcl = lcl\<rparr>)))"

text \<open>
  The process: the module body runs \<^verbatim>\<open>model = load_model()\<close> once; an exception there
  ends the start-up and no request is ever served.
\<close>

definition serve :: "environment \<Rightarrow> PredictRequest \<Rightarrow> py_error + PredictResponse" where
  "serve env req = bind_err (load_model env) (\<lambda>model. predict model req)"

section \<open>Scenarios and contracts used in the statements\<close>

text \<open>
  The request of the specification's concrete scenario (section 8, items 5 and 8): all
  fifteen fields 0, under a given name.
\<close>

definition all_zero :: "string \<Rightarrow> PredictRequest" where
  "all_zero nm =
     \<lparr>use_case_name = nm,
      is_process_simple = 0,
      can_specify_business_rules = 0,
      will_occasional_errors_be_tolerated = 0,
      will_error_be_propagated = 0,
      is_use_case_transactional_in_nature = 0,
      are_you_building_learning_system = 0,
      high_stakes_environment = 0,
      hyper_personalization = 0,
      unstructured_text_input = 0,
      is_input_data_multi_modal = 0,
      language_generation = 0,
      are_autonomous_decisions_required = 0,
      is_reasoning_required = 0,
      tool_integration = 0,
      dynamic_goals = 0\<rparr>"



section \<open>Helper lemmas\<close>

lemma DBL_LIMIT_big: "(2::'a::linordered_field) ^ 1023 \<le> DBL_LIMIT"
proof -
  have "(2::'a) ^ 970 \<le> 2 ^ 1023" by (rule power_increasing) simp_all
  moreover have "(2::'a) ^ 1024 = 2 * 2 ^ 1023" by simp
  ultimately show ?thesis unfolding DBL_LIMIT_def by linarith
qed

lemma below_DBL_LIMIT: "x \<le> 2 ^ 20 \<Longrightarrow> x < (DBL_LIMIT :: 'a::linordered_field)"
proof -
  assume "x \<le> 2 ^ 20"
  moreover have "(2::'a) ^ 20 < 2 ^ 1023" by (rule power_strict_increasing) simp_all
  ultimately show ?thesis using DBL_LIMIT_big [where 'a = 'a] by linarith
qed

lemma float_pow2_Inr: "z ^ 2 < DBL_LIMIT \<Longrightarrow> float_pow2 A z = Inr (rnd A (z ^ 2))"
  by (simp add: float_pow2_def)

lemma float_div_Inr: "y \<noteq> 0 \<Longrightarrow> float_div A x y = Inr (rnd A (x / y))"
  by (simp add: float_div_def)

lemma float_div_int_Inr:
  fixes A :: "'a::linordered_field arith"
  shows "\<bar>of_int k :: 'a\<bar> < DBL_LIMIT \<Longrightarrow> rnd A (of_int k) \<noteq> 0
   \<Longrightarrow> float_div_int A x k = Inr (rnd A (x / rnd A (of_int k)))"
  by (simp add: float_div_int_def float_of_int_def float_div_def)

lemma float_pow_half_Inr: "0 \<le> x \<Longrightarrow> float_pow_half A x = Inr (root A x)"
  by (simp add: float_pow_half_def)

lemma wilson_interval_Inr:
  fixes A :: "'a::linordered_field arith"
  assumes z: "z ^ 2 < DBL_LIMIT"
    and n1: "\<bar>of_int n :: 'a\<bar> < DBL_LIMIT" and n2: "\<bar>of_int (2 * n) :: 'a\<bar> < DBL_LIMIT"
    and n4: "\<bar>of_int (4 * n ^ 2) :: 'a\<bar> < DBL_LIMIT"
    and r1: "rnd A (of_int n) \<noteq> 0" and r2: "rnd A (of_int (2 * n)) \<noteq> 0"
    and r4: "rnd A (of_int (4 * n ^ 2)) \<noteq> 0"
    and d: "wilson_denom A n z \<noteq> 0"
    and rad: "0 \<le> wilson_radicand A p n z"
  shows "wilson_interval A p n z =
           Inr (max 0 (rnd A (wilson_center A p n z - wilson_half A p n z)),
                min 1 (rnd A (wilson_center A p n z + wilson_half A p n z)))"
proof -
  have d': "rnd A (1 + rnd A (rnd A (z\<^sup>2) / rnd A (of_int n))) \<noteq> 0"
    using d by (simp add: wilson_denom_def)
  have rad': "0 \<le> rnd A (rnd A (rnd A (p * rnd A (1 - p)) / rnd A (of_int n))
            + rnd A (rnd A (z ^ 2) / rnd A (of_int (4 * n ^ 2))))"
    using rad by (simp only: wilson_radicand_def)
  show ?thesis
    unfolding wilson_interval_def wilson_center_def wilson_half_def wilson_radicand_def
      wilson_denom_def Let_def
    by (simp only: float_pow2_Inr [OF z] float_div_int_Inr [OF n1 r1]
        float_div_int_Inr [OF n2 r2] float_div_int_Inr [OF n4 r4] bind_err.simps
        float_div_Inr [OF d'] float_pow_half_Inr [OF rad'])
qed

lemma exact_simps: "rnd exact x = x" "root exact x = sqrt x"
  by (simp_all add: exact_def)

lemma wilson_exact_values:
  "wilson_denom exact n z = 1 + z\<^sup>2 / real_of_int n"
  "wilson_center exact p n z = (p + z\<^sup>2 / (2 * real_of_int n)) / (1 + z\<^sup>2 / real_of_int n)"
  "wilson_radicand exact p n z = p * (1 - p) / real_of_int n + z\<^sup>2 / (4 * (real_of_int n)\<^sup>2)"
  "wilson_half exact p n z =
     z * sqrt (p * (1 - p) / real_of_int n + z\<^sup>2 / (4 * (real_of_int n)\<^sup>2))
       / (1 + z\<^sup>2 / real_of_int n)"
  by (simp_all add: wilson_denom_def wilson_center_def wilson_radicand_def wilson_half_def
      exact_simps)

lemma wilson_exact_Inr:
  assumes n: "0 < n" and nl: "real_of_int (4 * n ^ 2) < DBL_LIMIT"
    and zl: "z ^ 2 < DBL_LIMIT"
    and rad: "0 \<le> p * (1 - p) / real_of_int n + z ^ 2 / (4 * (real_of_int n) ^ 2)"
  shows "wilson_interval exact p n z = Inr (spec_interval p n z)"
proof -
  have nn: "n \<le> n ^ 2" using n by (simp add: power2_eq_square)
  have a1: "\<bar>real_of_int n\<bar> < DBL_LIMIT"
  proof -
    have "real_of_int n \<le> real_of_int (4 * n ^ 2)" using nn n by linarith
    then show ?thesis using nl n by simp
  qed
  have a2: "\<bar>real_of_int (2 * n)\<bar> < DBL_LIMIT"
  proof -
    have "real_of_int (2 * n) \<le> real_of_int (4 * n ^ 2)" using nn n by linarith
    then show ?thesis using nl n by simp
  qed
  have a4: "\<bar>real_of_int (4 * n ^ 2)\<bar> < DBL_LIMIT" using nl by simp
  have d: "wilson_denom exact n z \<noteq> 0"
  proof -
    have "0 \<le> z ^ 2 / real_of_int n" using n by simp
    then show ?thesis unfolding wilson_exact_values by linarith
  qed
  have r1: "rnd exact (real_of_int n) \<noteq> 0" using n by (simp add: exact_simps)
  have r2: "rnd exact (real_of_int (2 * n)) \<noteq> 0" using n by (simp add: exact_simps)
  have r4: "rnd exact (real_of_int (4 * n ^ 2)) \<noteq> 0" using n by (simp add: exact_simps)
  have rad': "0 \<le> wilson_radicand exact p n z" using rad by (simp only: wilson_exact_values)
  show ?thesis
    unfolding wilson_interval_Inr [OF zl a1 a2 a4 r1 r2 r4 d rad']
    by (simp add: wilson_exact_values exact_simps spec_interval_def Let_def)
qed



lemma wilson_default_exact_rad:
  assumes "0 \<le> p * (1 - p) / 100 + (196 / 100)\<^sup>2 / (4 * 100\<^sup>2)"
  shows "wilson_interval_default exact p = Inr (spec_interval p 100 (196 / 100))"
proof -
  have n: "(0::int) < 100" by simp
  have nl: "real_of_int (4 * 100 ^ 2) < DBL_LIMIT" by (rule below_DBL_LIMIT) simp
  have zl: "(196 / 100 :: real) ^ 2 < DBL_LIMIT" by (rule below_DBL_LIMIT) (simp add: power2_eq_square)
  have rad: "0 \<le> p * (1 - p) / real_of_int 100 + (196 / 100) ^ 2 / (4 * (real_of_int 100) ^ 2)"
    using assms by simp
  show ?thesis
    unfolding wilson_interval_default_def exact_simps
    by (rule wilson_exact_Inr [OF n nl zl rad])
qed

lemma wilson_default_exact:
  assumes "0 \<le> p" and "p \<le> 1"
  shows "wilson_interval_default exact p = Inr (spec_interval p 100 (196 / 100))"
proof -
  have "0 \<le> p * (1 - p)" using assms by simp
  then have "0 \<le> p * (1 - p) / 100 + (196 / 100)\<^sup>2 / (4 * 100\<^sup>2)" by simp
  then show ?thesis by (rule wilson_default_exact_rad)
qed

lemma sqrt_quarter_square:
  fixes z N :: real
  assumes "0 < N" and "0 \<le> z"
  shows "sqrt (z\<^sup>2 / (4 * N\<^sup>2)) = z / (2 * N)"
proof (rule real_sqrt_unique)
  show "(z / (2 * N))\<^sup>2 = z\<^sup>2 / (4 * N\<^sup>2)" by (simp add: power_divide power_mult_distrib)
  show "0 \<le> z / (2 * N)" using assms by simp
qed

lemma spec_interval_at_0:
  assumes "0 < n" and "0 \<le> z"
  shows "fst (spec_interval 0 n z) = 0"
proof -
  define N where "N = real_of_int n"
  define D where "D = 1 + z\<^sup>2 / N"
  define X where "X = z\<^sup>2 / (2 * N)"
  have N: "0 < N" using assms(1) by (simp add: N_def)
  have s: "sqrt (0 * (1 - 0) / N + z\<^sup>2 / (4 * N\<^sup>2)) = z / (2 * N)"
    using sqrt_quarter_square [OF N assms(2)] by simp
  have e: "z * (z / (2 * N)) = X" by (simp add: X_def power2_eq_square)
  have "fst (spec_interval 0 n z) = max 0 ((0 + X) / D - X / D)"
    unfolding spec_interval_def Let_def N_def [symmetric] s e X_def [symmetric] D_def [symmetric]
    by (rule fst_conv)
  then show ?thesis by simp
qed

lemma spec_interval_at_1:
  assumes "0 < n" and "0 \<le> z"
  shows "snd (spec_interval 1 n z) = 1"
proof -
  define N where "N = real_of_int n"
  define D where "D = 1 + z\<^sup>2 / N"
  define X where "X = z\<^sup>2 / (2 * N)"
  have N: "0 < N" using assms(1) by (simp add: N_def)
  have s: "sqrt (1 * (1 - 1) / N + z\<^sup>2 / (4 * N\<^sup>2)) = z / (2 * N)"
    using sqrt_quarter_square [OF N assms(2)] by simp
  have D: "0 < D" unfolding D_def using N by (simp add: add_pos_nonneg)
  have DX: "D = 1 + X + X" by (simp add: D_def X_def)
  have e: "z * (z / (2 * N)) = X" by (simp add: X_def power2_eq_square)
  have "snd (spec_interval 1 n z) = min 1 ((1 + X) / D + X / D)"
    unfolding spec_interval_def Let_def N_def [symmetric] s e X_def [symmetric] D_def [symmetric]
    by (rule snd_conv)
  also have "(1 + X) / D + X / D = (1 + X + X) / D" by (simp only: add_divide_distrib)
  also have "\<dots> = 1" using D unfolding DX by simp
  finally show ?thesis by simp
qed



lemma conint01_cases: "conint01 v \<Longrightarrow> v = 0 \<or> v = 1"
  unfolding conint01_def by linarith

lemma agentic_score_count:
  assumes "a = 0 \<or> a = 1" "b = 0 \<or> b = 1" "c = 0 \<or> c = 1" "d = (0::int) \<or> d = 1"
  shows "(3 \<le> sum_list [a, b, c, d]) = (3 \<le> length (filter (\<lambda>v. v = 1) [a, b, c, d]))"
  using assms by auto

lemma heuristic_fallback_spec:
  assumes "valid_request req"
  shows "heuristic_fallback req = (spec_label_index req, 7 / 10)"
proof -
  have lg: "language_generation req = 0 \<or> language_generation req = 1"
    and cb: "can_specify_business_rules req = 0 \<or> can_specify_business_rules req = 1"
    and ls: "are_you_building_learning_system req = 0 \<or> are_you_building_learning_system req = 1"
    and a: "are_autonomous_decisions_required req = 0 \<or> are_autonomous_decisions_required req = 1"
    and b: "is_reasoning_required req = 0 \<or> is_reasoning_required req = 1"
    and c: "tool_integration req = 0 \<or> tool_integration req = 1"
    and d: "dynamic_goals req = 0 \<or> dynamic_goals req = 1"
    using assms unfolding valid_request_def by (simp_all add: conint01_cases)
  have sc: "(3 \<le> agentic_score req) = (3 \<le> spec_agentic_count req)"
    unfolding agentic_score_def spec_agentic_count_def
    by (rule agentic_score_count [OF a b c d])
  have l1: "(language_generation req \<noteq> 0) = (language_generation req = 1)" using lg by auto
  have c1: "(can_specify_business_rules req \<noteq> 0) = (can_specify_business_rules req = 1)"
    using cb by auto
  show ?thesis
    unfolding heuristic_fallback_def spec_label_index_def Let_def sc l1 c1 by simp
qed

lemma heuristic_fallback_range:
  "snd (heuristic_fallback req) = 7 / 10"
  "0 \<le> fst (heuristic_fallback req)" "fst (heuristic_fallback req) \<le> 3"
  by (simp_all add: heuristic_fallback_def Let_def)

lemma LABELS_getitem:
  assumes "0 \<le> i" and "i \<le> 3"
  shows "py_getitem LABELS i = Inr (LABELS ! nat i)"
  using assms by (simp add: py_getitem_def LABELS_def)

lemma classify_None: "classify None req = Inr (heuristic_fallback req)"
  by (simp add: classify_def)

lemma predict_None:
  "predict None req =
     Inr \<lparr>label = LABELS ! nat (fst (heuristic_fallback req)),
          avg_confidence = 7 / 10,
          ucl = snd (spec_interval (7 / 10) 100 (196 / 100)),
          lcl = fst (spec_interval (7 / 10) 100 (196 / 100))\<rparr>"
proof -
  obtain i q where h: "heuristic_fallback req = (i, q)" by (cases "heuristic_fallback req")
  have q: "q = 7 / 10" and i0: "0 \<le> i" and i3: "i \<le> 3"
    using heuristic_fallback_range [of req] unfolding h by simp_all
  have w: "wilson_interval_default exact (7 / 10) = Inr (spec_interval (7 / 10) 100 (196 / 100))"
    by (rule wilson_default_exact) simp_all
  show ?thesis
    unfolding predict_def classify_None h q
    by (simp add: w case_prod_beta LABELS_getitem [OF i0 i3])
qed












section \<open>Evaluation in binary64 arithmetic\<close>

lemma binary64_simps: "rnd binary64 = b64" "root binary64 = b64_sqrt"
  by (simp_all add: binary64_def)

lemma b64_literal_196: "b64 (196 / 100) = (2206763817411543 / 1125899906842624)"
  by code_simp

lemma b64_steps_shared:
  "b64 ((2206763817411543 / 1125899906842624) ^ 2) = (135164283816457 / 35184372088832)"
  "b64 (of_int 100) = 100"
  "b64 (of_int (2 * 100)) = 200"
  "b64 (of_int (4 * 100 ^ 2)) = 40000"
  "b64 ((135164283816457 / 35184372088832) / 100) = (5536329065122079 / 144115188075855872)"
  "b64 (1 + (5536329065122079 / 144115188075855872)) = (4676609910655561 / 4503599627370496)"
  "b64 ((135164283816457 / 35184372088832) / 200) = (5536329065122079 / 288230376151711744)"
  "b64 ((135164283816457 / 35184372088832) / 40000) = (7086501203356261 / 73786976294838206464)"
  by code_simp+

lemma binary64_default_Inr:
  assumes "0 \<le> wilson_radicand binary64 p 100 (2206763817411543 / 1125899906842624)"
  shows "wilson_interval_default binary64 p =
     Inr (max 0 (b64 (wilson_center binary64 p 100 (2206763817411543 / 1125899906842624)
                      - wilson_half binary64 p 100 (2206763817411543 / 1125899906842624))),
          min 1 (b64 (wilson_center binary64 p 100 (2206763817411543 / 1125899906842624)
                      + wilson_half binary64 p 100 (2206763817411543 / 1125899906842624))))"
proof -
  have z: "(2206763817411543 / 1125899906842624) ^ 2 < (DBL_LIMIT :: rat)"
    by (rule below_DBL_LIMIT) (simp add: power2_eq_square)
  have n1: "\<bar>of_int 100 :: rat\<bar> < DBL_LIMIT" by (rule below_DBL_LIMIT) simp
  have n2: "\<bar>of_int (2 * 100) :: rat\<bar> < DBL_LIMIT" by (rule below_DBL_LIMIT) simp
  have n4: "\<bar>of_int (4 * 100 ^ 2) :: rat\<bar> < DBL_LIMIT" by (rule below_DBL_LIMIT) simp
  have r1: "rnd binary64 (of_int 100) \<noteq> 0"
    and r2: "rnd binary64 (of_int (2 * 100)) \<noteq> 0"
    and r4: "rnd binary64 (of_int (4 * 100 ^ 2)) \<noteq> 0"
    unfolding binary64_simps b64_steps_shared by simp_all
  have d: "wilson_denom binary64 100 (2206763817411543 / 1125899906842624) \<noteq> 0"
    unfolding wilson_denom_def binary64_simps b64_steps_shared by simp
  show ?thesis
    unfolding wilson_interval_default_def binary64_simps(1) b64_literal_196
    using wilson_interval_Inr [OF z n1 n2 n4 r1 r2 r4 d assms]
    by (simp only: binary64_simps)
qed

lemma b64_steps_at_0:
  "b64 (0 + (5536329065122079 / 288230376151711744)) = (5536329065122079 / 288230376151711744)"
  "b64 ((5536329065122079 / 288230376151711744) / (4676609910655561 / 4503599627370496)) = (2665756818617047 / 144115188075855872)"
  "b64 (1 - 0) = 1"
  "b64 (0 * 1) = 0"
  "b64 (0 / 100) = 0"
  "b64 (0 + (7086501203356261 / 73786976294838206464)) = (7086501203356261 / 73786976294838206464)"
  "b64_sqrt (7086501203356261 / 73786976294838206464) = (2824657686286775 / 288230376151711744)"
  "b64 ((2206763817411543 / 1125899906842624) * (2824657686286775 / 288230376151711744)) = (5536329065122079 / 288230376151711744)"
  "b64 ((2665756818617047 / 144115188075855872) - (2665756818617047 / 144115188075855872)) = 0"
  "b64 ((2665756818617047 / 144115188075855872) + (2665756818617047 / 144115188075855872)) = (2665756818617047 / 72057594037927936)"
  by code_simp+

lemma binary64_at_0:
  "wilson_interval_default binary64 0 = Inr (0, (2665756818617047 / 72057594037927936))"
proof -
  have rad: "0 \<le> wilson_radicand binary64 0 100 (2206763817411543 / 1125899906842624)"
    unfolding wilson_radicand_def binary64_simps b64_steps_shared b64_steps_at_0 by simp
  have lo: "max 0 (b64 (wilson_center binary64 0 100 (2206763817411543 / 1125899906842624)
                      - wilson_half binary64 0 100 (2206763817411543 / 1125899906842624))) = 0"
    unfolding wilson_center_def wilson_half_def wilson_radicand_def wilson_denom_def
      binary64_simps b64_steps_shared b64_steps_at_0 by simp
  have hi: "min 1 (b64 (wilson_center binary64 0 100 (2206763817411543 / 1125899906842624)
                      + wilson_half binary64 0 100 (2206763817411543 / 1125899906842624))) = (2665756818617047 / 72057594037927936)"
    unfolding wilson_center_def wilson_half_def wilson_radicand_def wilson_denom_def
      binary64_simps b64_steps_shared b64_steps_at_0 by simp
  show ?thesis
    unfolding binary64_default_Inr [OF rad] lo hi by (rule refl)
qed

lemma b64_steps_at_1:
  "b64 (1 + (5536329065122079 / 288230376151711744)) = (1147526192253257 / 1125899906842624)"
  "b64 ((1147526192253257 / 1125899906842624) / (4676609910655561 / 4503599627370496)) = (4420294726788713 / 4503599627370496)"
  "b64 (1 - 1) = 0"
  "b64 (1 * 0) = 0"
  "b64 (0 / 100) = 0"
  "b64 (0 + (7086501203356261 / 73786976294838206464)) = (7086501203356261 / 73786976294838206464)"
  "b64_sqrt (7086501203356261 / 73786976294838206464) = (2824657686286775 / 288230376151711744)"
  "b64 ((2206763817411543 / 1125899906842624) * (2824657686286775 / 288230376151711744)) = (5536329065122079 / 288230376151711744)"
  "b64 ((5536329065122079 / 288230376151711744) / (4676609910655561 / 4503599627370496)) = (2665756818617047 / 144115188075855872)"
  "b64 ((4420294726788713 / 4503599627370496) - (2665756818617047 / 144115188075855872)) = (8673979652413861 / 9007199254740992)"
  "b64 ((4420294726788713 / 4503599627370496) + (2665756818617047 / 144115188075855872)) = (9007199254740991 / 9007199254740992)"
  by code_simp+

lemma binary64_at_1:
  "wilson_interval_default binary64 1 = Inr ((8673979652413861 / 9007199254740992), (9007199254740991 / 9007199254740992))"
proof -
  have rad: "0 \<le> wilson_radicand binary64 1 100 (2206763817411543 / 1125899906842624)"
    unfolding wilson_radicand_def binary64_simps b64_steps_shared b64_steps_at_1 by simp
  have lo: "max 0 (b64 (wilson_center binary64 1 100 (2206763817411543 / 1125899906842624)
                      - wilson_half binary64 1 100 (2206763817411543 / 1125899906842624))) = (8673979652413861 / 9007199254740992)"
    unfolding wilson_center_def wilson_half_def wilson_radicand_def wilson_denom_def
      binary64_simps b64_steps_shared b64_steps_at_1 by simp
  have hi: "min 1 (b64 (wilson_center binary64 1 100 (2206763817411543 / 1125899906842624)
                      + wilson_half binary64 1 100 (2206763817411543 / 1125899906842624))) = (9007199254740991 / 9007199254740992)"
    unfolding wilson_center_def wilson_half_def wilson_radicand_def wilson_denom_def
      binary64_simps b64_steps_shared b64_steps_at_1 by simp
  show ?thesis
    unfolding binary64_default_Inr [OF rad] lo hi by (rule refl)
qed




section \<open>The claims\<close>

text \<open>
  C1. In fallback mode (no artifact), for every request whose fifteen fields are 0 or 1,
  the classification is the four-branch priority procedure of the specification:
  index 2 if \<open>language_generation\<close> is 1; else index 0 if at least three of the four
  agentic fields are 1; else index 3 if \<open>can_specify_business_rules\<close> is 1 and
  \<open>are_you_building_learning_system\<close> is 0; else index 1. The confidence is 0.70 in
  every case, and the response carries that confidence and the label at that index.
\<close>

theorem fallback_classification:
  assumes "valid_request req"
  shows "classify None req = Inr (spec_label_index req, 7 / 10)
       \<and> (\<exists>r. predict None req = Inr r \<and> avg_confidence r = 7 / 10
              \<and> py_getitem LABELS (spec_label_index req) = Inr (label r))"
proof -
  have h: "heuristic_fallback req = (spec_label_index req, 7 / 10)"
    by (rule heuristic_fallback_spec [OF assms])
  have i0: "0 \<le> spec_label_index req" and i3: "spec_label_index req \<le> 3"
    using heuristic_fallback_range(2,3) [of req] unfolding h by simp_all
  show ?thesis
    unfolding classify_None predict_None h
    by (simp add: LABELS_getitem [OF i0 i3])
qed

theorem fallback_classification_witness:
  "valid_request ((all_zero ''x'')\<lparr>are_autonomous_decisions_required := 1,
       is_reasoning_required := 1, dynamic_goals := 1, can_specify_business_rules := 1\<rparr>)
   \<and> classify None ((all_zero ''x'')\<lparr>are_autonomous_decisions_required := 1,
       is_reasoning_required := 1, dynamic_goals := 1, can_specify_business_rules := 1\<rparr>)
     = Inr (0, 7 / 10)"
  using fallback_classification [of "(all_zero ''x'')\<lparr>are_autonomous_decisions_required := 1,
       is_reasoning_required := 1, dynamic_goals := 1, can_specify_business_rules := 1\<rparr>"]
  by (simp add: all_zero_def valid_request_def conint01_def spec_label_index_def
      spec_agentic_count_def)







text \<open>
  C4, as stated, fails: when the file exists and \<^verbatim>\<open>joblib.load\<close> raises (a corrupt file, a
  file in another format), \<^verbatim>\<open>load_model\<close> has no handler, the exception leaves the module
  body, start-up does not complete and no request is served.
\<close>

theorem load_failure_counterexample:
  "load_model \<lparr>path_exists = True, joblib_load = Inl UnpicklingError\<rparr> = Inl UnpicklingError
   \<and> serve \<lparr>path_exists = True, joblib_load = Inl UnpicklingError\<rparr> (all_zero ''x'')
       = Inl UnpicklingError"
  by (simp add: load_model_def serve_def)

text \<open>
  C4, amended. If the artifact file does not exist at start-up, start-up completes with
  no model and every classification is the heuristic fallback. If the file exists and
  loading it raises, the exception ends the start-up: there is no fallback.
\<close>

theorem load_model_outcomes:
  "(\<not> path_exists env \<longrightarrow>
       load_model env = Inr None \<and> serve env req = predict None req)
   \<and> (path_exists env \<and> joblib_load env = Inl e \<longrightarrow>
       load_model env = Inl e \<and> serve env req = Inl e)"
  by (simp add: load_model_def serve_def)

theorem load_model_outcomes_witness:
  "\<not> path_exists \<lparr>path_exists = False, joblib_load = Inl UnpicklingError\<rparr>
   \<and> load_model \<lparr>path_exists = False, joblib_load = Inl UnpicklingError\<rparr> = Inr None
   \<and> serve \<lparr>path_exists = False, joblib_load = Inl UnpicklingError\<rparr> (all_zero ''x'')
       = predict None (all_zero ''x'')
   \<and> path_exists \<lparr>path_exists = True, joblib_load = Inl UnpicklingError\<rparr>
   \<and> joblib_load \<lparr>path_exists = True, joblib_load = Inl UnpicklingError\<rparr> = Inl UnpicklingError
   \<and> load_model \<lparr>path_exists = True, joblib_load = Inl UnpicklingError\<rparr> = Inl UnpicklingError"
  using load_model_outcomes [of "\<lparr>path_exists = False, joblib_load = Inl UnpicklingError\<rparr>"
      "all_zero ''x''" UnpicklingError]
    load_model_outcomes [of "\<lparr>path_exists = True, joblib_load = Inl UnpicklingError\<rparr>"
      "all_zero ''x''" UnpicklingError]
  by simp






text \<open>
  C7, as stated, fails in its second half in binary64 arithmetic: with the defaults,
  \<^verbatim>\<open>wilson_interval(1.0)\<close> returns the upper limit \<open>1 - 2^-53\<close> (0.9999999999999999), not 1.0.
\<close>

theorem interval_extremes_counterexample:
  "wilson_interval_default binary64 1
     = Inr (8673979652413861 / 9007199254740992, 9007199254740991 / 9007199254740992)
   \<and> (9007199254740991 / 9007199254740992 :: rat) \<noteq> 1"
  using binary64_at_1 by simp

text \<open>
  C7, amended. With the defaults, \<^verbatim>\<open>wilson_interval(0.0)\<close> returns the lower limit 0.0, in
  binary64 and in exact arithmetic. \<^verbatim>\<open>wilson_interval(1.0)\<close> returns the upper limit 1 in
  exact arithmetic and \<open>1 - 2^-53\<close>, one rounding step below 1.0, in binary64.
\<close>

theorem interval_extremes:
  "wilson_interval_default binary64 0 = Inr (0, 2665756818617047 / 72057594037927936)
   \<and> wilson_interval_default binary64 1 = Inr (8673979652413861 / 9007199254740992, 1 - 1 / 2 ^ 53)
   \<and> (\<exists>u. wilson_interval_default exact 0 = Inr (0, u))
   \<and> (\<exists>l. wilson_interval_default exact 1 = Inr (l, 1))"
proof (intro conjI)
  show "wilson_interval_default binary64 0 = Inr (0, 2665756818617047 / 72057594037927936)"
    by (rule binary64_at_0)
  show "wilson_interval_default binary64 1
      = Inr (8673979652413861 / 9007199254740992, 1 - 1 / 2 ^ 53)"
    using binary64_at_1 by simp
  have "wilson_interval_default exact 0 = Inr (spec_interval 0 100 (196 / 100))"
    by (rule wilson_default_exact) simp_all
  moreover have "fst (spec_interval 0 100 (196 / 100)) = 0"
    by (rule spec_interval_at_0) simp_all
  ultimately show "\<exists>u. wilson_interval_default exact 0 = Inr (0, u)"
    by (cases "spec_interval 0 100 (196 / 100)") simp
  have "wilson_interval_default exact 1 = Inr (spec_interval 1 100 (196 / 100))"
    by (rule wilson_default_exact) simp_all
  moreover have "snd (spec_interval 1 100 (196 / 100)) = 1"
    by (rule spec_interval_at_1) simp_all
  ultimately show "\<exists>l. wilson_interval_default exact 1 = Inr (l, 1)"
    by (cases "spec_interval 1 100 (196 / 100)") simp
qed



text \<open>
  C9. Two requests that agree on all fifteen binary fields get the same outcome of
  \<open>predict\<close>, whatever their names and whatever the model (an artifact or none): the same
  response, or the same exception.
\<close>

theorem name_independence:
  assumes "is_process_simple r1 = is_process_simple r2"
    and "can_specify_business_rules r1 = can_specify_business_rules r2"
    and "will_occasional_errors_be_tolerated r1 = will_occasional_errors_be_tolerated r2"
    and "will_error_be_propagated r1 = will_error_be_propagated r2"
    and "is_use_case_transactional_in_nature r1 = is_use_case_transactional_in_nature r2"
    and "are_you_building_learning_system r1 = are_you_building_learning_system r2"
    and "high_stakes_environment r1 = high_stakes_environment r2"
    and "hyper_personalization r1 = hyper_personalization r2"
    and "unstructured_text_input r1 = unstructured_text_input r2"
    and "is_input_data_multi_modal r1 = is_input_data_multi_modal r2"
    and "language_generation r1 = language_generation r2"
    and "are_autonomous_decisions_required r1 = are_autonomous_decisions_required r2"
    and "is_reasoning_required r1 = is_reasoning_required r2"
    and "tool_integration r1 = tool_integration r2"
    and "dynamic_goals r1 = dynamic_goals r2"
  shows "predict model r1 = predict model r2"
proof -
  have v: "vectorize r1 = vectorize r2" using assms by (simp add: vectorize_def)
  have h: "heuristic_fallback r1 = heuristic_fallback r2"
    using assms by (simp add: heuristic_fallback_def agentic_score_def)
  have "classify model r1 = classify model r2"
    unfolding classify_def v h by (rule refl)
  then show ?thesis by (simp only: predict_def)
qed

theorem name_independence_witness:
  "predict None (all_zero ''invoice matching'') = predict None (all_zero ''chat bot'')
   \<and> ''invoice matching'' \<noteq> ''chat bot''"
  using name_independence [of "all_zero ''invoice matching''" "all_zero ''chat bot''" None]
  by (simp add: all_zero_def)

text \<open>
  C10. In fallback mode the whole response depends only on the seven fields that the
  heuristic reads: two requests that agree on them get the same response, however they
  differ in the other eight fields and in the name.
\<close>

theorem fallback_seven_fields:
  assumes "language_generation r1 = language_generation r2"
    and "are_autonomous_decisions_required r1 = are_autonomous_decisions_required r2"
    and "is_reasoning_required r1 = is_reasoning_required r2"
    and "tool_integration r1 = tool_integration r2"
    and "dynamic_goals r1 = dynamic_goals r2"
    and "can_specify_business_rules r1 = can_specify_business_rules r2"
    and "are_you_building_learning_system r1 = are_you_building_learning_system r2"
  shows "predict None r1 = predict None r2"
proof -
  have "heuristic_fallback r1 = heuristic_fallback r2"
    using assms by (simp add: heuristic_fallback_def agentic_score_def)
  then show ?thesis by (simp only: predict_None)
qed

theorem fallback_seven_fields_witness:
  "predict None ((all_zero ''a'')\<lparr>tool_integration := 1\<rparr>)
   = predict None ((all_zero ''b'')\<lparr>tool_integration := 1, is_process_simple := 1,
        will_occasional_errors_be_tolerated := 1, will_error_be_propagated := 1,
        is_use_case_transactional_in_nature := 1, high_stakes_environment := 1,
        hyper_personalization := 1, unstructured_text_input := 1,
        is_input_data_multi_modal := 1\<rparr>)"
  using fallback_seven_fields [of "(all_zero ''a'')\<lparr>tool_integration := 1\<rparr>"
      "(all_zero ''b'')\<lparr>tool_integration := 1, is_process_simple := 1,
        will_occasional_errors_be_tolerated := 1, will_error_be_propagated := 1,
        is_use_case_transactional_in_nature := 1, high_stakes_environment := 1,
        hyper_personalization := 1, unstructured_text_input := 1,
        is_input_data_multi_modal := 1\<rparr>"]
  by (simp add: all_zero_def)

end
